theory Spec2Isabelle
  imports Complex_Main "HOL-Library.AList" "HOL-Library.Word"
begin

section \<open>Values, text and exceptions\<close>

text \<open>
  The bridge (\<^verbatim>\<open>src/integration/vegamcp_bridge.py\<close>) moves Python values that come out of
  \<^verbatim>\<open>json.loads\<close> or go into \<^verbatim>\<open>json.dumps\<close>: \<^verbatim>\<open>None\<close>, \<^verbatim>\<open>bool\<close>, \<^verbatim>\<open>int\<close>, \<^verbatim>\<open>float\<close>,
  \<^verbatim>\<open>str\<close>, \<^verbatim>\<open>list\<close> and \<^verbatim>\<open>dict\<close> with string keys. A \<^verbatim>\<open>dict\<close> is an association list in
  insertion order; a key is looked up with \<open>map_of\<close> and stored with \<open>AList.update\<close>.
  Text (\<^verbatim>\<open>str\<close>) is a \<open>string\<close> with one \<open>char\<close> for one character of the Python text, so
  the model covers the characters below code point 256. A finite \<^verbatim>\<open>float\<close> is a \<open>real\<close>;
  the bridge never computes with one.
\<close>

datatype json =
    JNull
  | JBool bool
  | JInt int
  | JFloat real
  | JStr string
  | JArr "json list"
  | JObj "(string \<times> json) list"

type_synonym bytes = "8 word list"

text \<open>
  The exceptions that can travel through the \<^verbatim>\<open>try\<close> block of \<^verbatim>\<open>call_mcp_tool\<close>.
  \<open>JSONDecodeError m\<close> carries its message \<open>m\<close>, the text \<^verbatim>\<open>str(e)\<close>.
  \<open>HTTPExc s d\<close> is \<^verbatim>\<open>HTTPException(s, detail=d)\<close> raised inside the block.
  \<open>TypeError op v\<close>, \<open>AttributeError v\<close>, \<open>KeyError k\<close> and \<open>IndexError v\<close> name the
  operation and the operand the interpreter refused; \<open>UnicodeDecodeError b\<close> the bytes
  that are not valid UTF-8.
\<close>

datatype exc =
    TimeoutError
  | JSONDecodeError string
  | HTTPExc nat json
  | TypeError string json
  | AttributeError json
  | KeyError json
  | IndexError json
  | UnicodeDecodeError "8 word list"
  | OSError string

text \<open>
  What reaches the HTTP caller: an \<^verbatim>\<open>HTTPException\<close> that left the route, or the
  framework's own rejection of a request that fails the declared field constraints
  (status 422).
\<close>

datatype field_error =
    Missing string
  | GreaterThanEqual string int
  | LessThanEqual string int

datatype http_error =
    HTTPException nat json
  | RequestValidationError "field_error list"

fun status_code :: "http_error \<Rightarrow> nat" where
  "status_code (HTTPException s d) = s"
| "status_code (RequestValidationError errs) = 422"

text \<open>
  The library functions the bridge calls are parameters of the model:
  \<^verbatim>\<open>json.loads\<close> on a \<^verbatim>\<open>str\<close> (the value, or the message of the \<^verbatim>\<open>JSONDecodeError\<close> it
  raises), \<^verbatim>\<open>json.dumps\<close>, \<^verbatim>\<open>bytes.decode()\<close> (\<open>None\<close> when it raises
  \<^verbatim>\<open>UnicodeDecodeError\<close>), \<^verbatim>\<open>str.encode()\<close>, and \<^verbatim>\<open>str(e)\<close> on an exception.
\<close>

record runtime =
  json_loads :: "string \<Rightarrow> string + json"
  json_dumps :: "json \<Rightarrow> string"
  bytes_decode :: "bytes \<Rightarrow> string option"
  str_encode :: "string \<Rightarrow> bytes"
  exc_str :: "exc \<Rightarrow> string"

text \<open>
  Module constants of lines 25-26, read from the environment when the module is loaded.
\<close>

record config =
  VEGAMCP_PATH :: string
  VEGAMCP_SERVER :: string

section \<open>Python operations on text\<close>

text \<open>
  \<^verbatim>\<open>str.isspace\<close> on one character, for the characters below 256: tab, line feed, vertical
  tab, form feed, carriage return, the four separators 0x1C-0x1F, space, NEL (0x85) and
  the no-break space (0xA0).
\<close>

definition is_space :: "char \<Rightarrow> bool" where
  "is_space c =
     (let n = (of_char c :: nat)
      in (9 \<le> n \<and> n \<le> 13) \<or> (28 \<le> n \<and> n \<le> 32) \<or> n = 133 \<or> n = 160)"

text \<open>\<^verbatim>\<open>s.strip()\<close>: drop the whitespace at both ends.\<close>

definition strip :: "string \<Rightarrow> string" where
  "strip s = rev (dropWhile is_space (rev (dropWhile is_space s)))"

text \<open>
  \<^verbatim>\<open>s.split(sep)\<close> for a separator of one character: the pieces between the separators,
  empty pieces included; never the empty list. The scan keeps the piece read so far and
  closes it at every separator and at the end of the text.
\<close>

fun split_from :: "char \<Rightarrow> string \<Rightarrow> string \<Rightarrow> string list" where
  "split_from sep piece [] = [piece]"
| "split_from sep piece (c # cs) =
     (if c = sep then piece # split_from sep [] cs
      else split_from sep (piece @ [c]) cs)"

definition split_on :: "char \<Rightarrow> string \<Rightarrow> string list" where
  "split_on sep s = split_from sep [] s"

text \<open>\<^verbatim>\<open>sep.join(pieces)\<close> for a separator of one character.\<close>

fun join :: "char \<Rightarrow> string list \<Rightarrow> string" where
  "join sep [] = []"
| "join sep [piece] = piece"
| "join sep (piece # pieces) = piece @ sep # join sep pieces"

definition newline :: char where
  "newline = CHR 0x0A"

text \<open>Line 59: \<^verbatim>\<open>text.strip().split("\n")[-1]\<close>.\<close>

definition reply_line :: "string \<Rightarrow> string" where
  "reply_line txt = last (split_on newline (strip txt))"

section \<open>Python operations on values\<close>

fun starts_with :: "string \<Rightarrow> string \<Rightarrow> bool" where
  "starts_with [] s = True"
| "starts_with (k # ks) [] = False"
| "starts_with (k # ks) (c # cs) = (k = c \<and> starts_with ks cs)"

fun contains_str :: "string \<Rightarrow> string \<Rightarrow> bool" where
  "contains_str k [] = (k = [])"
| "contains_str k (c # cs) = (starts_with k (c # cs) \<or> contains_str k cs)"

text \<open>
  \<^verbatim>\<open>key in v\<close> for a string key: key test on a dict, membership on a list, substring
  test on a string, \<^verbatim>\<open>TypeError\<close> on anything else.
\<close>

fun py_in :: "string \<Rightarrow> json \<Rightarrow> exc + bool" where
  "py_in k (JObj kvs) = Inr (map_of kvs k \<noteq> None)"
| "py_in k (JArr xs) = Inr (JStr k \<in> set xs)"
| "py_in k (JStr s) = Inr (contains_str k s)"
| "py_in k v = Inl (TypeError ''in'' v)"

text \<open>\<^verbatim>\<open>v[key]\<close> for a string key.\<close>

fun py_getitem :: "json \<Rightarrow> string \<Rightarrow> exc + json" where
  "py_getitem (JObj kvs) k =
     (case map_of kvs k of None \<Rightarrow> Inl (KeyError (JStr k)) | Some v \<Rightarrow> Inr v)"
| "py_getitem v k = Inl (TypeError ''getitem'' v)"

text \<open>\<^verbatim>\<open>v.get(key, default)\<close>: only a dict has the method.\<close>

fun py_get :: "json \<Rightarrow> string \<Rightarrow> json \<Rightarrow> exc + json" where
  "py_get (JObj kvs) k d = Inr (case map_of kvs k of None \<Rightarrow> d | Some v \<Rightarrow> v)"
| "py_get v k d = Inl (AttributeError v)"

text \<open>Truth value of \<^verbatim>\<open>v\<close> in a condition.\<close>

fun truthy :: "json \<Rightarrow> bool" where
  "truthy JNull = False"
| "truthy (JBool b) = b"
| "truthy (JInt n) = (n \<noteq> 0)"
| "truthy (JFloat r) = (r \<noteq> 0)"
| "truthy (JStr s) = (s \<noteq> [])"
| "truthy (JArr xs) = (xs \<noteq> [])"
| "truthy (JObj kvs) = (kvs \<noteq> [])"

text \<open>
  \<^verbatim>\<open>v[0]\<close>, evaluated on line 65 only when \<^verbatim>\<open>v\<close> is true: the first element of a list,
  the first character of a string, \<^verbatim>\<open>KeyError\<close> on a dict (its keys are strings),
  \<^verbatim>\<open>TypeError\<close> on a number or a boolean.
\<close>

fun py_first :: "json \<Rightarrow> exc + json" where
  "py_first (JArr (x # xs)) = Inr x"
| "py_first (JStr (c # cs)) = Inr (JStr [c])"
| "py_first (JObj kvs) = Inl (KeyError (JInt 0))"
| "py_first (JArr []) = Inl (IndexError (JArr []))"
| "py_first (JStr []) = Inl (IndexError (JStr []))"
| "py_first v = Inl (TypeError ''getitem'' v)"

text \<open>\<^verbatim>\<open>json.loads(s)\<close> on text, with its failure as an exception.\<close>

definition loads :: "runtime \<Rightarrow> string \<Rightarrow> exc + json" where
  "loads rt s = (case json_loads rt s of Inl m \<Rightarrow> Inl (JSONDecodeError m) | Inr v \<Rightarrow> Inr v)"

text \<open>\<^verbatim>\<open>json.loads(v)\<close> on a value taken from a decoded reply: only text is accepted.\<close>

fun loads_value :: "runtime \<Rightarrow> json \<Rightarrow> exc + json" where
  "loads_value rt (JStr s) = loads rt s"
| "loads_value rt v = Inl (TypeError ''loads'' v)"

section \<open>Child processes\<close>

text \<open>
  The process table is passed through every call. A process records the command and
  directory it was launched with, every input handed to \<^verbatim>\<open>communicate\<close>, whether its
  input stream was closed, and whether it is still running.
\<close>

datatype proc_status = Running | Exited int

record proc =
  argv :: "string list"
  cwd :: string
  stdin_data :: "bytes list"
  stdin_eof :: bool
  proc_status :: proc_status

text \<open>
  What the operating system and the child do during one call: the launch raises, or the
  child does not finish within the 30 seconds of \<^verbatim>\<open>wait_for\<close>, or it exits with a return
  code after writing its output and error streams.
\<close>

datatype child =
    SpawnFails exc
  | Hangs
  | Exits int bytes bytes

text \<open>Lines 40-46: \<^verbatim>\<open>asyncio.create_subprocess_exec\<close> with three pipes.\<close>

definition create_subprocess_exec ::
  "child \<Rightarrow> string list \<Rightarrow> string \<Rightarrow> proc list \<Rightarrow> (exc + nat) \<times> proc list" where
  "create_subprocess_exec ch av dir ps =
     (case ch of
        SpawnFails e \<Rightarrow> (Inl e, ps)
      | _ \<Rightarrow> (Inr (length ps),
              ps @ [\<lparr>argv = av, cwd = dir, stdin_data = [], stdin_eof = False,
                     proc_status = Running\<rparr>]))"

text \<open>
  Lines 50-53: \<^verbatim>\<open>asyncio.wait_for(proc.communicate(input), timeout=30.0)\<close>.
  \<^verbatim>\<open>communicate\<close> writes the input, closes the input stream, reads both output streams to
  their end and waits for the exit. When the 30 seconds pass first, \<^verbatim>\<open>wait_for\<close> cancels
  the pending \<^verbatim>\<open>communicate\<close> and raises \<^verbatim>\<open>TimeoutError\<close>; it sends nothing to the child.
\<close>

definition wait_for_communicate ::
  "child \<Rightarrow> nat \<Rightarrow> bytes \<Rightarrow> proc list \<Rightarrow> (exc + int \<times> bytes \<times> bytes) \<times> proc list" where
  "wait_for_communicate ch pid inp ps =
     (let p = ps ! pid;
          ps1 = ps[pid := p\<lparr>stdin_data := stdin_data p @ [inp], stdin_eof := True\<rparr>]
      in case ch of
           Exits rc out err \<Rightarrow>
             (Inr (rc, out, err), ps1[pid := (ps1 ! pid)\<lparr>proc_status := Exited rc\<rparr>])
         | _ \<Rightarrow> (Inl TimeoutError, ps1))"

section \<open>The bridge: \<^verbatim>\<open>call_mcp_tool\<close>\<close>

text \<open>Lines 33-38: the JSON-RPC request.\<close>

definition request :: "string \<Rightarrow> json \<Rightarrow> json" where
  "request tool_name arguments =
     JObj [(''jsonrpc'', JStr ''2.0''),
           (''id'', JInt 1),
           (''method'', JStr ''tools/call''),
           (''params'', JObj [(''name'', JStr tool_name), (''arguments'', arguments)])]"

text \<open>Lines 60-65: from the decoded reply to the tool's result.\<close>

definition extract_result :: "runtime \<Rightarrow> json \<Rightarrow> exc + json" where
  "extract_result rt response =
     (case py_in ''error'' response of
        Inl e \<Rightarrow> Inl e
      | Inr True \<Rightarrow>
          (case py_getitem response ''error'' of
             Inl e \<Rightarrow> Inl e
           | Inr d \<Rightarrow> Inl (HTTPExc 500 d))
      | Inr False \<Rightarrow>
          (case py_get response ''result'' (JObj []) of
             Inl e \<Rightarrow> Inl e
           | Inr result \<Rightarrow>
               (case py_get result ''content'' (JArr [JObj []]) of
                  Inl e \<Rightarrow> Inl e
                | Inr content \<Rightarrow>
                    if truthy content then
                      (case py_first content of
                         Inl e \<Rightarrow> Inl e
                       | Inr x \<Rightarrow>
                           (case py_get x ''text'' (JStr ''{}'') of
                              Inl e \<Rightarrow> Inl e
                            | Inr t \<Rightarrow> loads_value rt t))
                    else Inr (JObj []))))"

text \<open>Line 59: decode the output, take the reply line, parse it.\<close>

definition parse_response :: "runtime \<Rightarrow> bytes \<Rightarrow> exc + json" where
  "parse_response rt out =
     (case bytes_decode rt out of
        None \<Rightarrow> Inl (UnicodeDecodeError out)
      | Some txt \<Rightarrow> loads rt (reply_line txt))"

text \<open>Lines 55-56: the exception raised for a non-zero return code.\<close>

definition nonzero_exit :: "runtime \<Rightarrow> bytes \<Rightarrow> exc" where
  "nonzero_exit rt err =
     (case bytes_decode rt err of
        None \<Rightarrow> UnicodeDecodeError err
      | Some txt \<Rightarrow> HTTPExc 500 (JStr (''VegaMCP error: '' @ take 500 txt)))"

text \<open>Lines 32-65: the body of the \<^verbatim>\<open>try\<close> block.\<close>

definition try_body ::
  "runtime \<Rightarrow> config \<Rightarrow> child \<Rightarrow> string \<Rightarrow> json \<Rightarrow> proc list \<Rightarrow> (exc + json) \<times> proc list" where
  "try_body rt cfg ch tool_name arguments ps =
     (case create_subprocess_exec ch [''node'', VEGAMCP_SERVER cfg] (VEGAMCP_PATH cfg) ps of
        (Inl e, ps1) \<Rightarrow> (Inl e, ps1)
      | (Inr pid, ps1) \<Rightarrow>
          (let request_bytes = str_encode rt (json_dumps rt (request tool_name arguments))
           in case wait_for_communicate ch pid request_bytes ps1 of
                (Inl e, ps2) \<Rightarrow> (Inl e, ps2)
              | (Inr (returncode, out, err), ps2) \<Rightarrow>
                  if returncode \<noteq> 0 then (Inl (nonzero_exit rt err), ps2)
                  else (case parse_response rt out of
                          Inl e \<Rightarrow> (Inl e, ps2)
                        | Inr response \<Rightarrow> (extract_result rt response, ps2))))"

text \<open>
  Lines 67-72: the three \<^verbatim>\<open>except\<close> clauses, tried in order. An \<^verbatim>\<open>HTTPException\<close> raised
  inside the block is an \<^verbatim>\<open>Exception\<close>, so the last clause receives it.
\<close>

fun except_clauses :: "runtime \<Rightarrow> exc \<Rightarrow> http_error" where
  "except_clauses rt TimeoutError = HTTPException 504 (JStr ''VegaMCP request timed out'')"
| "except_clauses rt (JSONDecodeError m) =
     HTTPException 500 (JStr (''Invalid response from VegaMCP: '' @ m))"
| "except_clauses rt e = HTTPException 500 (JStr (exc_str rt e))"

definition finish :: "runtime \<Rightarrow> exc + json \<Rightarrow> http_error + json" where
  "finish rt r = (case r of Inl e \<Rightarrow> Inl (except_clauses rt e) | Inr v \<Rightarrow> Inr v)"

definition call_mcp_tool ::
  "runtime \<Rightarrow> config \<Rightarrow> child \<Rightarrow> string \<Rightarrow> json \<Rightarrow> proc list
     \<Rightarrow> (http_error + json) \<times> proc list" where
  "call_mcp_tool rt cfg ch tool_name arguments ps =
     (case try_body rt cfg ch tool_name arguments ps of
        (r, ps') \<Rightarrow> (finish rt r, ps'))"

section \<open>The routes\<close>

type_synonym dict = "(string \<times> json) list"

text \<open>
  The statement \<^verbatim>\<open>if x: args[key] = x\<close> for a field \<^verbatim>\<open>x\<close> of type \<^verbatim>\<open>Optional[str]\<close>:
  \<^verbatim>\<open>None\<close> and the empty string are both false.
\<close>

fun assign_if :: "string \<Rightarrow> string option \<Rightarrow> dict \<Rightarrow> dict" where
  "assign_if key None args = args"
| "assign_if key (Some x) args = (if x \<noteq> [] then AList.update key (JStr x) args else args)"


subsection \<open>GET /agents (lines 153-164)\<close>



subsection \<open>POST /broadcast (lines 89-92 and 176-184)\<close>

record BroadcastRequest =
  message :: string
  coordinator :: "string option"
  status :: "string option"



subsection \<open>POST /tasks (lines 79-84 and 191-202)\<close>

record CreateTaskRequest =
  task_type :: string
  priority :: int
  input_data :: dict
  target_agent :: "string option"
  timeout :: int

text \<open>
  The body of a request as it arrives: every field may be missing. A field that is
  present has the declared type; a \<^verbatim>\<open>null\<close> target agent is \<open>None\<close>.
\<close>

record CreateTaskBody =
  body_task_type :: "string option"
  body_priority :: "int option"
  body_input_data :: "dict option"
  body_target_agent :: "string option"
  body_timeout :: "int option"

text \<open>\<^verbatim>\<open>Field(default, ge=lo, le=hi)\<close> on an integer field.\<close>

definition check_range :: "string \<Rightarrow> int \<Rightarrow> int \<Rightarrow> int \<Rightarrow> field_error list" where
  "check_range name lo hi v =
     (if v < lo then [GreaterThanEqual name lo]
      else if hi < v then [LessThanEqual name hi]
      else [])"

text \<open>
  The field declarations of \<^verbatim>\<open>CreateTaskRequest\<close>, applied by the framework before the
  route function runs: \<^verbatim>\<open>task_type\<close> is required, \<^verbatim>\<open>priority\<close> defaults to 2 and lies in
  0..3, \<^verbatim>\<open>input_data\<close> defaults to the empty dict, \<^verbatim>\<open>target_agent\<close> defaults to \<^verbatim>\<open>None\<close>,
  \<^verbatim>\<open>timeout\<close> defaults to 300 and lies in 10..3600.
\<close>

definition validate_CreateTaskRequest :: "CreateTaskBody \<Rightarrow> field_error list + CreateTaskRequest" where
  "validate_CreateTaskRequest b =
     (let p = (case body_priority b of None \<Rightarrow> 2 | Some v \<Rightarrow> v);
          t = (case body_timeout b of None \<Rightarrow> 300 | Some v \<Rightarrow> v);
          errs = (case body_task_type b of None \<Rightarrow> [Missing ''task_type''] | Some v \<Rightarrow> [])
                 @ check_range ''priority'' 0 3 p
                 @ check_range ''timeout'' 10 3600 t
      in case body_task_type b of
           Some tt \<Rightarrow>
             if errs = [] then
               Inr \<lparr>task_type = tt, priority = p,
                    input_data = (case body_input_data b of None \<Rightarrow> [] | Some d \<Rightarrow> d),
                    target_agent = body_target_agent b, timeout = t\<rparr>
             else Inl errs
         | None \<Rightarrow> Inl errs)"

definition create_task_args :: "CreateTaskRequest \<Rightarrow> dict" where
  "create_task_args req =
     assign_if ''target_agent'' (target_agent req)
       [(''task_type'', JStr (task_type req)),
        (''priority'', JInt (priority req)),
        (''input_data'', JObj (input_data req)),
        (''timeout'', JInt (timeout req))]"

definition create_task ::
  "runtime \<Rightarrow> config \<Rightarrow> child \<Rightarrow> CreateTaskRequest \<Rightarrow> proc list
     \<Rightarrow> (http_error + json) \<times> proc list" where
  "create_task rt cfg ch req ps =
     call_mcp_tool rt cfg ch ''swarm_create_task'' (JObj (create_task_args req)) ps"

text \<open>The route as the caller sees it: validation first, then the route function.\<close>

definition post_tasks ::
  "runtime \<Rightarrow> config \<Rightarrow> child \<Rightarrow> CreateTaskBody \<Rightarrow> proc list
     \<Rightarrow> (http_error + json) \<times> proc list" where
  "post_tasks rt cfg ch b ps =
     (case validate_CreateTaskRequest b of
        Inl errs \<Rightarrow> (Inl (RequestValidationError errs), ps)
      | Inr req \<Rightarrow> create_task rt cfg ch req ps)"

subsection \<open>POST /workflows (lines 115-119 and 233-241)\<close>




subsection \<open>POST /memory/search (lines 129-133 and 284-292)\<close>




subsection \<open>GET /memory/nodes (lines 301-305)\<close>

definition name_list :: "string \<Rightarrow> string list" where
  "name_list names = map strip (split_on CHR '','' names)"

definition open_nodes_args :: "string \<Rightarrow> dict" where
  "open_nodes_args names = [(''names'', JArr (map JStr (name_list names)))]"

definition open_nodes ::
  "runtime \<Rightarrow> config \<Rightarrow> child \<Rightarrow> string \<Rightarrow> proc list \<Rightarrow> (http_error + json) \<times> proc list" where
  "open_nodes rt cfg ch names ps =
     call_mcp_tool rt cfg ch ''open_nodes'' (JObj (open_nodes_args names)) ps"

section \<open>The reply line as the specification words it\<close>


section \<open>A runtime for the examples\<close>

text \<open>
  The examples below run the bridge on concrete bytes. Their runtime decodes and encodes
  ASCII, parses the six texts the examples use to the values CPython's \<^verbatim>\<open>json.loads\<close>
  gives for them and rejects every other text as it rejects a text with no value,
  serialises the one request the examples send, and renders an \<^verbatim>\<open>HTTPException\<close> with
  a text detail as status, colon, detail, and the three interpreter errors the examples
  meet with CPython's message.
\<close>

definition backslash :: char where
  "backslash = CHR 0x5C"

definition echo_text :: string where
  \<open>echo_text =
     ''{"result":{"content":[{"text":"{'' @ backslash # ''"ok'' @ backslash # ''":true}"}]}}''\<close>

definition error_text :: string where
  \<open>error_text = ''{"error":{"code":-32601,"message":"Unknown tool"}}''\<close>

definition number_text_reply :: string where
  \<open>number_text_reply = ''{"result":{"content":[{"text":5}]}}''\<close>

definition null_result_reply :: string where
  \<open>null_result_reply = ''{"result":null}''\<close>

definition ex_loads :: "string \<Rightarrow> string + json" where
  \<open>ex_loads s =
     (if s = echo_text then
        Inr (JObj [(''result'', JObj [(''content'', JArr [JObj [(''text'', JStr ''{"ok":true}'')]])])])
      else if s = ''{"ok":true}'' then Inr (JObj [(''ok'', JBool True)])
      else if s = ''{}'' then Inr (JObj [])
      else if s = error_text then
        Inr (JObj [(''error'', JObj [(''code'', JInt (- 32601)), (''message'', JStr ''Unknown tool'')])])
      else if s = '' '' then Inl ''Expecting value: line 1 column 2 (char 1)''
      else if s = number_text_reply then
        Inr (JObj [(''result'', JObj [(''content'', JArr [JObj [(''text'', JInt 5)]])])])
      else if s = null_result_reply then Inr (JObj [(''result'', JNull)])
      else Inl ''Expecting value: line 1 column 1 (char 0)'')\<close>

definition ex_decode :: "bytes \<Rightarrow> string option" where
  "ex_decode b = (if list_all (\<lambda>w. w < 128) b then Some (map (\<lambda>w. char_of (unat w)) b) else None)"

definition ex_encode :: "string \<Rightarrow> bytes" where
  "ex_encode s = map of_char s"

fun ex_exc_str :: "exc \<Rightarrow> string" where
  "ex_exc_str (JSONDecodeError m) = m"
| "ex_exc_str (HTTPExc s (JStr d)) = ''500: '' @ d"
| "ex_exc_str (HTTPExc s d) = ''500: (a value that is not text)''"
| "ex_exc_str (TypeError op (JInt n)) = ''the JSON object must be str, bytes or bytearray, not int''"
| "ex_exc_str (AttributeError JNull) =
     CHR 0x27 # ''NoneType' object has no attribute 'get'' @ [CHR 0x27]"
| "ex_exc_str (UnicodeDecodeError b) =
     CHR 0x27 # ''utf-8' codec can't decode byte 0xff in position 0: invalid start byte''"
| "ex_exc_str e = ''error''"

definition ex_dumps :: "json \<Rightarrow> string" where
  \<open>ex_dumps v =
     (if v = request ''swarm_list_agents'' (JObj []) then
        ''{"jsonrpc": "2.0", "id": 1, "method": "tools/call", "params": {"name": "swarm_list_agents", "arguments": {}}}''
      else ''null'')\<close>

definition ex_runtime :: runtime where
  "ex_runtime = \<lparr>json_loads = ex_loads, json_dumps = ex_dumps, bytes_decode = ex_decode,
                  str_encode = ex_encode, exc_str = ex_exc_str\<rparr>"

definition ex_config :: config where
  "ex_config = \<lparr>VEGAMCP_PATH = ''/opt/VegaMCP'', VEGAMCP_SERVER = ''/opt/VegaMCP/build/index.js''\<rparr>"

section \<open>Splitting and stripping\<close>

lemma split_from_piece:
  "split_from sep piece s = (piece @ hd (split_from sep [] s)) # tl (split_from sep [] s)"
proof (induction s arbitrary: piece)
  case Nil
  show ?case by simp
next
  case (Cons c cs)
  show ?case
  proof (cases "c = sep")
    case True
    then show ?thesis by simp
  next
    case False
    have "split_from sep (piece @ [c]) cs =
            ((piece @ [c]) @ hd (split_from sep [] cs)) # tl (split_from sep [] cs)"
      by (rule Cons.IH)
    moreover have "split_from sep [c] cs =
            ([c] @ hd (split_from sep [] cs)) # tl (split_from sep [] cs)"
      by (rule Cons.IH)
    ultimately show ?thesis using False by simp
  qed
qed

lemma split_on_Nil: "split_on sep [] = [[]]"
  by (simp add: split_on_def)

lemma split_on_Cons:
  "split_on sep (c # cs) =
     (if c = sep then [] # split_on sep cs
      else (c # hd (split_on sep cs)) # tl (split_on sep cs))"
  using split_from_piece [of sep "[c]" cs] by (simp add: split_on_def)

lemma split_on_not_Nil: "split_on sep s \<noteq> []"
  by (cases s) (simp_all add: split_on_Nil split_on_Cons)

lemma length_split_on: "length (split_on sep s) = Suc (count_list s sep)"
proof (induction s)
  case Nil
  show ?case by (simp add: split_on_Nil)
next
  case (Cons c cs)
  then show ?case by (simp add: split_on_Cons)
qed

lemma join_split_on: "join sep (split_on sep s) = s"
proof (induction s)
  case Nil
  show ?case by (simp add: split_on_Nil)
next
  case (Cons c cs)
  obtain p ps where r: "split_on sep cs = p # ps"
    using split_on_not_Nil [of sep cs] by (cases "split_on sep cs") auto
  from Cons r show ?case by (cases ps) (auto simp: split_on_Cons)
qed

lemma sep_notin_split_on: "piece \<in> set (split_on sep s) \<Longrightarrow> sep \<notin> set piece"
proof (induction s arbitrary: piece)
  case Nil
  then show ?case by (simp add: split_on_Nil)
next
  case (Cons c cs)
  obtain p ps where r: "split_on sep cs = p # ps"
    using split_on_not_Nil [of sep cs] by (cases "split_on sep cs") auto
  from Cons r show ?case by (auto simp: split_on_Cons split: if_splits)
qed



lemma strip_parts:
  "\<exists>a b. s = a @ strip s @ b \<and> list_all is_space a \<and> list_all is_space b"
proof -
  define t where "t = dropWhile is_space s"
  have s: "s = takeWhile is_space s @ t"
    by (simp add: t_def)
  have "rev (takeWhile is_space (rev t) @ dropWhile is_space (rev t)) = rev (rev t)"
    by (simp only: takeWhile_dropWhile_id)
  then have "rev (dropWhile is_space (rev t)) @ rev (takeWhile is_space (rev t)) = t"
    by (simp only: rev_append rev_rev_ident)
  then have t: "t = strip s @ rev (takeWhile is_space (rev t))"
    by (simp only: strip_def t_def)
  have a: "list_all is_space (takeWhile is_space s)"
    by (auto simp: list_all_iff dest: set_takeWhileD)
  have b: "list_all is_space (rev (takeWhile is_space (rev t)))"
    by (auto simp: list_all_iff dest: set_takeWhileD)
  from s t have "s = takeWhile is_space s @ strip s @ rev (takeWhile is_space (rev t))"
    by simp
  with a b show ?thesis by blast
qed

lemma strip_ends:
  "strip s = [] \<or> (\<not> is_space (hd (strip s)) \<and> \<not> is_space (last (strip s)))"
proof (cases "strip s = []")
  case True
  then show ?thesis by simp
next
  case False
  define t where "t = dropWhile is_space s"
  define u where "u = dropWhile is_space (rev t)"
  have st: "strip s = rev u"
    by (simp add: strip_def t_def u_def)
  with False have u: "u \<noteq> []" by simp
  then have "\<not> is_space (hd u)"
    unfolding u_def by (rule hd_dropWhile)
  then have l: "\<not> is_space (last (strip s))"
    using u by (simp add: st last_rev)
  have "rev (takeWhile is_space (rev t) @ u) = rev (rev t)"
    by (simp only: u_def takeWhile_dropWhile_id)
  then have t: "t = rev u @ rev (takeWhile is_space (rev t))"
    by (simp only: rev_append rev_rev_ident)
  with u have tn: "t \<noteq> []" by auto
  then have "\<not> is_space (hd t)"
    unfolding t_def by (rule hd_dropWhile)
  moreover have "hd t = hd (rev u)"
    using t u by (metis hd_append2 rev_is_Nil_conv)
  ultimately show ?thesis using l by (simp add: st)
qed



section \<open>The bridge, outcome by outcome\<close>


lemma try_body_Hangs:
  "try_body rt cfg Hangs tool_name arguments ps =
     (Inl TimeoutError,
      ps @ [\<lparr>argv = [''node'', VEGAMCP_SERVER cfg], cwd = VEGAMCP_PATH cfg,
              stdin_data = [str_encode rt (json_dumps rt (request tool_name arguments))],
              stdin_eof = True, proc_status = Running\<rparr>])"
  by (simp add: try_body_def create_subprocess_exec_def wait_for_communicate_def Let_def)

lemma try_body_Exits:
  "try_body rt cfg (Exits rc out err) tool_name arguments ps =
     (if rc \<noteq> 0 then Inl (nonzero_exit rt err)
      else (case parse_response rt out of
              Inl e \<Rightarrow> Inl e
            | Inr response \<Rightarrow> extract_result rt response),
      ps @ [\<lparr>argv = [''node'', VEGAMCP_SERVER cfg], cwd = VEGAMCP_PATH cfg,
              stdin_data = [str_encode rt (json_dumps rt (request tool_name arguments))],
              stdin_eof = True, proc_status = Exited rc\<rparr>])"
  by (simp add: try_body_def create_subprocess_exec_def wait_for_communicate_def Let_def
      split: sum.splits)


lemma call_Hangs:
  "call_mcp_tool rt cfg Hangs tool_name arguments ps =
     (Inl (HTTPException 504 (JStr ''VegaMCP request timed out'')),
      ps @ [\<lparr>argv = [''node'', VEGAMCP_SERVER cfg], cwd = VEGAMCP_PATH cfg,
              stdin_data = [str_encode rt (json_dumps rt (request tool_name arguments))],
              stdin_eof = True, proc_status = Running\<rparr>])"
  by (simp add: call_mcp_tool_def try_body_Hangs finish_def)

lemma call_Exits:
  "call_mcp_tool rt cfg (Exits rc out err) tool_name arguments ps =
     (finish rt (if rc \<noteq> 0 then Inl (nonzero_exit rt err)
                 else (case parse_response rt out of
                         Inl e \<Rightarrow> Inl e
                       | Inr response \<Rightarrow> extract_result rt response)),
      ps @ [\<lparr>argv = [''node'', VEGAMCP_SERVER cfg], cwd = VEGAMCP_PATH cfg,
              stdin_data = [str_encode rt (json_dumps rt (request tool_name arguments))],
              stdin_eof = True, proc_status = Exited rc\<rparr>])"
  by (simp add: call_mcp_tool_def try_body_Exits)

text \<open>A reply that exits zero and decodes: the result is decided by the reply line.\<close>

lemma fst_call_zero:
  assumes "bytes_decode rt out = Some txt"
  shows "fst (call_mcp_tool rt cfg (Exits 0 out err) tool_name arguments ps) =
           finish rt (case loads rt (reply_line txt) of
                        Inl e \<Rightarrow> Inl e
                      | Inr response \<Rightarrow> extract_result rt response)"
  using assms by (simp add: call_Exits parse_response_def)

text \<open>A reply object without an \<^verbatim>\<open>error\<close> key whose content starts with an object.\<close>

lemma extract_result_content:
  assumes "map_of response ''error'' = None"
    and "map_of response ''result'' = Some (JObj result)"
    and "map_of result ''content'' = Some (JArr (JObj x # xs))"
  shows "extract_result rt (JObj response) =
           loads_value rt (case map_of x ''text'' of None \<Rightarrow> JStr ''{}'' | Some t \<Rightarrow> t)"
  using assms by (simp add: extract_result_def)

lemma extract_result_error:
  assumes "map_of response ''error'' = Some d"
  shows "extract_result rt (JObj response) = Inl (HTTPExc 500 d)"
  using assms by (simp add: extract_result_def)

subsection \<open>The runtime of the examples\<close>

lemma unat_of_char: "unat (of_char c :: 8 word) = of_char c"
proof -
  have "unat (of_nat (of_char c) :: 8 word) = (of_char c :: nat) mod 2 ^ 8"
    by (simp add: unat_of_nat)
  moreover have "(of_char c :: nat) < 256" by simp
  ultimately show ?thesis by (simp add: of_nat_of_char)
qed

lemma word_of_char_less: "((of_char c :: 8 word) < 128) = ((of_char c :: nat) < 128)"
  by (simp add: word_less_nat_alt unat_of_char)

lemma ex_decode_encode:
  "list_all (\<lambda>c. (of_char c :: nat) < 128) s \<Longrightarrow> ex_decode (ex_encode s) = Some s"
  by (simp add: ex_decode_def ex_encode_def list_all_iff word_of_char_less unat_of_char
      map_idI)

lemma ex_runtime_simps:
  "json_loads ex_runtime = ex_loads"
  "json_dumps ex_runtime = ex_dumps"
  "bytes_decode ex_runtime = ex_decode"
  "str_encode ex_runtime = ex_encode"
  "exc_str ex_runtime = ex_exc_str"
  by (simp_all add: ex_runtime_def)


lemma ex_decode_error: "ex_decode (ex_encode error_text) = Some error_text"
  by (rule ex_decode_encode) (simp add: error_text_def)


lemma reply_line_error: "reply_line error_text = error_text"
  by (simp add: reply_line_def strip_def split_on_def is_space_def newline_def error_text_def)


lemma ex_loads_error:
  \<open>ex_loads error_text =
     Inr (JObj [(''error'', JObj [(''code'', JInt (- 32601)), (''message'', JStr ''Unknown tool'')])])\<close>
  by (simp add: ex_loads_def echo_text_def error_text_def)



section \<open>Claims about the bridge\<close>

text \<open>
  C5. When the child produces no reply within the 30 seconds, the call fails with the
  time-out error, status 504, and returns no result.
\<close>

theorem timeout_is_504:
  "\<exists>e. fst (call_mcp_tool rt cfg Hangs tool_name arguments ps) = Inl e
        \<and> e = HTTPException 504 (JStr ''VegaMCP request timed out'')
        \<and> status_code e = 504"
  by (simp add: call_Hangs)

text \<open>
  C6. When the child exits with a non-zero return code, the call fails with status 500
  and returns no result; the message is built from the first 500 characters of the
  error-stream text and from nothing else of it: two error streams whose texts agree on
  their first 500 characters give the same failure.
\<close>

theorem nonzero_exit_is_500:
  assumes "rc \<noteq> 0"
  shows "(\<exists>m. fst (call_mcp_tool rt cfg (Exits rc out err) tool_name arguments ps) =
                Inl (HTTPException 500 (JStr m)))
       \<and> (\<forall>txt. bytes_decode rt err = Some txt \<longrightarrow>
             fst (call_mcp_tool rt cfg (Exits rc out err) tool_name arguments ps) =
               Inl (HTTPException 500
                     (JStr (exc_str rt (HTTPExc 500 (JStr (''VegaMCP error: '' @ take 500 txt)))))))
       \<and> (\<forall>err' txt txt'.
             bytes_decode rt err = Some txt \<and> bytes_decode rt err' = Some txt'
               \<and> take 500 txt = take 500 txt' \<longrightarrow>
             fst (call_mcp_tool rt cfg (Exits rc out err) tool_name arguments ps) =
               fst (call_mcp_tool rt cfg (Exits rc out err') tool_name arguments ps))"
  using assms by (simp add: call_Exits finish_def nonzero_exit_def split: option.splits)

theorem nonzero_exit_is_500_witness:
  "(1::int) \<noteq> 0
   \<and> fst (call_mcp_tool ex_runtime ex_config
            (Exits 1 [] (ex_encode (replicate 600 CHR ''x''))) ''swarm_list_agents'' (JObj []) []) =
       Inl (HTTPException 500 (JStr (''500: VegaMCP error: '' @ replicate 500 CHR ''x'')))"
proof -
  define s where "s = replicate 600 CHR ''x''"
  have a: "list_all (\<lambda>c. (of_char c :: nat) < 128) s"
    unfolding s_def list_all_iff by (simp only: set_replicate_conv_if) simp
  have t: "take 500 s = replicate 500 CHR ''x''"
    unfolding s_def by (simp only: take_replicate) simp
  have d: "bytes_decode ex_runtime (ex_encode s) = Some s"
    using a by (simp only: ex_runtime_simps ex_decode_encode)
  have n: "(1::int) \<noteq> 0" by simp
  from nonzero_exit_is_500 [OF n, of ex_runtime ex_config "[]" "ex_encode s"
      "''swarm_list_agents''" "JObj []" "[]"] d
  have "fst (call_mcp_tool ex_runtime ex_config (Exits 1 [] (ex_encode s))
               ''swarm_list_agents'' (JObj []) []) =
          Inl (HTTPException 500
                (JStr (ex_exc_str (HTTPExc 500 (JStr (''VegaMCP error: '' @ take 500 s))))))"
    by (simp only: ex_runtime_simps)
  then show ?thesis
    unfolding t by (simp only: s_def ex_exc_str.simps) simp
qed

text \<open>
  C3. The reply object has an \<^verbatim>\<open>error\<close> key. Line 61 raises an \<^verbatim>\<open>HTTPException\<close> carrying the
  value of that key, inside the \<^verbatim>\<open>try\<close> block; the clause of line 71 catches it and
  raises a new one whose detail is the text \<^verbatim>\<open>str(e)\<close> of the first. The caller gets
  status 500 with that text, which is never the error object itself.
\<close>

theorem remote_error_detail_is_text:
  assumes "bytes_decode rt out = Some txt"
    and "json_loads rt (reply_line txt) = Inr (JObj response)"
    and "map_of response ''error'' = Some d"
  shows "fst (call_mcp_tool rt cfg (Exits 0 out err) tool_name arguments ps) =
           Inl (HTTPException 500 (JStr (exc_str rt (HTTPExc 500 d))))"
  using assms by (simp add: fst_call_zero loads_def extract_result_error finish_def)

theorem remote_error_detail_is_text_witness:
  "fst (call_mcp_tool ex_runtime ex_config (Exits 0 (ex_encode error_text) [])
          ''swarm_list_agents'' (JObj []) []) =
     Inl (HTTPException 500 (JStr ''500: (a value that is not text)''))
   \<and> fst (call_mcp_tool ex_runtime ex_config (Exits 0 (ex_encode error_text) [])
          ''swarm_list_agents'' (JObj []) []) \<noteq>
     Inl (HTTPException 500
           (JObj [(''code'', JInt (- 32601)), (''message'', JStr ''Unknown tool'')]))"
proof -
  have d: "bytes_decode ex_runtime (ex_encode error_text) = Some error_text"
    by (simp add: ex_runtime_simps ex_decode_error)
  have l: "json_loads ex_runtime (reply_line error_text) =
             Inr (JObj [(''error'', JObj [(''code'', JInt (- 32601)),
                                          (''message'', JStr ''Unknown tool'')])])"
    by (simp add: ex_runtime_simps reply_line_error ex_loads_error)
  have m: "map_of [(''error'', JObj [(''code'', JInt (- 32601)),
                                     (''message'', JStr ''Unknown tool'')])] ''error'' =
             Some (JObj [(''code'', JInt (- 32601)), (''message'', JStr ''Unknown tool'')])"
    by simp
  from remote_error_detail_is_text [OF d l m]
  show ?thesis by (simp add: ex_runtime_simps)
qed











section \<open>Claims about the routes\<close>

text \<open>
  C8. A body for POST /tasks whose priority is below 0 or above 3 is rejected with
  status 422 before the route function runs: the process table is unchanged, so no child
  was spawned.
\<close>

theorem priority_out_of_range_rejected:
  assumes "body_priority b = Some p" and "p < 0 \<or> 3 < p"
  shows "\<exists>errs. post_tasks rt cfg ch b ps = (Inl (RequestValidationError errs), ps)
           \<and> status_code (RequestValidationError errs) = 422
           \<and> (GreaterThanEqual ''priority'' 0 \<in> set errs
                \<or> LessThanEqual ''priority'' 3 \<in> set errs)"
  using assms
  by (auto simp: post_tasks_def validate_CreateTaskRequest_def check_range_def Let_def
      split: option.splits)

theorem priority_out_of_range_rejected_witness:
  "post_tasks ex_runtime ex_config (Exits 0 (ex_encode echo_text) [])
     \<lparr>body_task_type = Some ''research'', body_priority = Some 5, body_input_data = None,
      body_target_agent = None, body_timeout = None\<rparr> [] =
   (Inl (RequestValidationError [LessThanEqual ''priority'' 3]), [])"
proof -
  have a: "body_priority \<lparr>body_task_type = Some ''research'', body_priority = Some 5,
             body_input_data = None, body_target_agent = None, body_timeout = None\<rparr> = Some 5"
    by simp
  have b: "(5::int) < 0 \<or> 3 < (5::int)"
    by simp
  from priority_out_of_range_rejected [OF a b, of ex_runtime ex_config
      "Exits 0 (ex_encode echo_text) []" "[]"]
  obtain errs where
    "post_tasks ex_runtime ex_config (Exits 0 (ex_encode echo_text) [])
       \<lparr>body_task_type = Some ''research'', body_priority = Some 5, body_input_data = None,
        body_target_agent = None, body_timeout = None\<rparr> [] =
     (Inl (RequestValidationError errs), [])"
    by blast
  moreover have "validate_CreateTaskRequest
       \<lparr>body_task_type = Some ''research'', body_priority = Some 5, body_input_data = None,
        body_target_agent = None, body_timeout = None\<rparr> = Inl [LessThanEqual ''priority'' 3]"
    by (simp add: validate_CreateTaskRequest_def check_range_def)
  ultimately show ?thesis
    by (simp add: post_tasks_def)
qed

text \<open>
  C9. GET /memory/nodes splits the \<^verbatim>\<open>names\<close> parameter at every comma and strips each
  piece. The pieces joined with commas are the parameter again and none of them has a
  comma; there are as many names as pieces, one more than there are commas, so an empty
  piece stays as an empty name; each name is its piece without the whitespace at both
  ends. For \<^verbatim>\<open>a,b, c\<close> the names are \<^verbatim>\<open>a\<close>, \<^verbatim>\<open>b\<close> and \<^verbatim>\<open>c\<close>.
\<close>

theorem names_split_and_stripped:
  "open_nodes rt cfg ch names ps =
     call_mcp_tool rt cfg ch ''open_nodes''
       (JObj [(''names'', JArr (map JStr (name_list names)))]) ps
   \<and> join CHR '','' (split_on CHR '','' names) = names
   \<and> (\<forall>piece\<in>set (split_on CHR '','' names). CHR '','' \<notin> set piece)
   \<and> length (name_list names) = Suc (count_list names CHR '','')
   \<and> list_all2
        (\<lambda>piece name.
           (\<exists>a b. piece = a @ name @ b \<and> list_all is_space a \<and> list_all is_space b)
           \<and> (name = [] \<or> (\<not> is_space (hd name) \<and> \<not> is_space (last name))))
        (split_on CHR '','' names) (name_list names)
   \<and> name_list ''a,b, c'' = [''a'', ''b'', ''c'']
   \<and> name_list ''a,,b,'' = [''a'', '''', ''b'', '''']"
proof -
  have a: "open_nodes rt cfg ch names ps =
             call_mcp_tool rt cfg ch ''open_nodes''
               (JObj [(''names'', JArr (map JStr (name_list names)))]) ps"
    by (simp add: open_nodes_def open_nodes_args_def)
  have b: "join CHR '','' (split_on CHR '','' names) = names"
    by (rule join_split_on)
  have c: "\<forall>piece\<in>set (split_on CHR '','' names). CHR '','' \<notin> set piece"
    by (blast dest: sep_notin_split_on)
  have d: "length (name_list names) = Suc (count_list names CHR '','')"
    by (simp add: name_list_def length_split_on)
  have e: "list_all2
        (\<lambda>piece name.
           (\<exists>a b. piece = a @ name @ b \<and> list_all is_space a \<and> list_all is_space b)
           \<and> (name = [] \<or> (\<not> is_space (hd name) \<and> \<not> is_space (last name))))
        (split_on CHR '','' names) (name_list names)"
    unfolding name_list_def list_all2_map2
    by (rule list_all2_refl) (use strip_parts strip_ends in blast)
  have f: "name_list ''a,b, c'' = [''a'', ''b'', ''c'']"
    by (simp add: name_list_def split_on_def strip_def is_space_def)
  have g: "name_list ''a,,b,'' = [''a'', '''', ''b'', '''']"
    by (simp add: name_list_def split_on_def strip_def is_space_def)
  from a b c d e f g show ?thesis by blast
qed

theorem names_split_and_stripped_witness:
  "length (name_list ''a,b, c'') = 3
   \<and> fst (open_nodes ex_runtime ex_config Hangs ''a,b, c'' []) =
       fst (call_mcp_tool ex_runtime ex_config Hangs ''open_nodes''
              (JObj [(''names'', JArr [JStr ''a'', JStr ''b'', JStr ''c''])]) [])"
  using names_split_and_stripped [of ex_runtime ex_config Hangs "''a,b, c''" "[]"]
  by simp


end
